theory Spec2Isabelle
  imports Main
begin

section \<open>JavaScript values used by the service\<close>

text \<open>
  The service is \<^verbatim>\<open>src/services/assist.ts\<close>. A JavaScript string is modelled as a
  \<^typ>\<open>string\<close>, one \<^typ>\<open>char\<close> per code unit (code units below 256). A value that may
  be \<^verbatim>\<open>null\<close> or \<^verbatim>\<open>undefined\<close> is an \<^typ>\<open>'a option\<close>; a string is falsy exactly
  when it is empty.
\<close>

definition truthy :: "string option \<Rightarrow> bool" where
  "truthy v = (case v of None \<Rightarrow> False | Some s \<Rightarrow> s \<noteq> [])"

text \<open>\<^verbatim>\<open>v || d\<close> on a nullable string.\<close>

definition or_default :: "string option \<Rightarrow> string \<Rightarrow> string" where
  "or_default v d = (case v of None \<Rightarrow> d | Some s \<Rightarrow> if s = [] then d else s)"

text \<open>\<^verbatim>\<open>Array.prototype.join\<close> on an array of strings.\<close>

fun join :: "string \<Rightarrow> string list \<Rightarrow> string" where
  "join sep [] = []"
| "join sep [x] = x"
| "join sep (x # y # ys) = x @ sep @ join sep (y # ys)"

text \<open>
  \<^verbatim>\<open>String.prototype.replace(pat, rep)\<close> with a string pattern: the first occurrence
  of the pattern is replaced, the rest of the string is kept.
\<close>

fun replace :: "string \<Rightarrow> string \<Rightarrow> string \<Rightarrow> string" where
  "replace pat rep [] = (if pat = [] then rep else [])"
| "replace pat rep (c # cs) =
     (if take (length pat) (c # cs) = pat then rep @ drop (length pat) (c # cs)
      else c # replace pat rep cs)"

text \<open>\<^verbatim>\<open>s.split(";")[0]\<close>: the part of the string before the first semicolon.\<close>

definition split_first :: "char \<Rightarrow> string \<Rightarrow> string" where
  "split_first sep s = takeWhile (\<lambda>c. c \<noteq> sep) s"

subsection \<open>Numbers\<close>

text \<open>
  A JavaScript number that \<^verbatim>\<open>parseInt\<close> returns is \<^verbatim>\<open>NaN\<close> or an integer. Integers
  are unbounded here; the rounding of a double above \<open>2^53\<close> changes no comparison with
  the constants \<open>256000\<close> and \<open>1000\<close> of this file, and \<open>-0\<close> is falsy like \<open>0\<close>.
\<close>

datatype jsnum = NaN | Num int

definition isWhiteSpace :: "char \<Rightarrow> bool" where
  "isWhiteSpace c \<longleftrightarrow> c \<in> set [CHR 0x09, CHR 0x0A, CHR 0x0B, CHR 0x0C, CHR 0x0D, CHR 0x20, CHR 0xA0]"

definition isDigit :: "char \<Rightarrow> bool" where
  "isDigit c \<longleftrightarrow> c \<in> set ''0123456789''"

definition digitValue :: "char \<Rightarrow> int" where
  "digitValue c = int (of_char c) - 48"

definition digitsValue :: "string \<Rightarrow> int" where
  "digitsValue ds = foldl (\<lambda>acc c. 10 * acc + digitValue c) 0 ds"

text \<open>
  \<^verbatim>\<open>parseInt(s, 10)\<close>: leading white space is skipped, one sign is read, then the
  longest run of decimal digits; what follows the digits is ignored, and no digit at
  all gives \<^verbatim>\<open>NaN\<close>.
\<close>

definition parseInt :: "string \<Rightarrow> jsnum" where
  "parseInt s =
     (let t = dropWhile isWhiteSpace s;
          sign = (if t \<noteq> [] \<and> hd t = CHR ''-'' then - 1 else 1);
          u = (if t \<noteq> [] \<and> (hd t = CHR ''-'' \<or> hd t = CHR ''+'') then tl t else t);
          ds = takeWhile isDigit u
      in if ds = [] then NaN else Num (sign * digitsValue ds))"

text \<open>\<^verbatim>\<open>Math.min(a, b)\<close> with a numeric second argument: \<^verbatim>\<open>NaN\<close> is contagious.\<close>

definition Math_min :: "jsnum \<Rightarrow> int \<Rightarrow> jsnum" where
  "Math_min a b = (case a of NaN \<Rightarrow> NaN | Num x \<Rightarrow> Num (min x b))"

text \<open>
  The decimal rendering of a number in a template literal and in \<^verbatim>\<open>toString()\<close>; it is
  JavaScript's rendering for every integer below \<open>10^21\<close> in absolute value.
\<close>

fun natToString :: "nat \<Rightarrow> string" where
  "natToString n =
     (if n < 10 then [char_of (48 + n)]
      else natToString (n div 10) @ [char_of (48 + n mod 10)])"

declare natToString.simps [simp del]

definition intToString :: "int \<Rightarrow> string" where
  "intToString i = (if i < 0 then CHR ''-'' # natToString (nat (- i)) else natToString (nat i))"

definition numToString :: "jsnum \<Rightarrow> string" where
  "numToString v = (case v of NaN \<Rightarrow> ''NaN'' | Num i \<Rightarrow> intToString i)"

subsection \<open>JSON\<close>

text \<open>
  The values handed to \<^verbatim>\<open>JSON.stringify\<close>. \<open>JUndefined\<close> is a property whose value is
  \<^verbatim>\<open>undefined\<close>: \<^verbatim>\<open>JSON.stringify\<close> leaves such a property out of an object and writes
  \<^verbatim>\<open>null\<close> for it inside an array.
\<close>

datatype json =
    JUndefined
  | JNull
  | JBool bool
  | JNum int
  | JStr string
  | JArr "json list"
  | JObj "(string \<times> json) list"

definition hexDigit :: "nat \<Rightarrow> char" where
  "hexDigit n = (if n < 10 then char_of (48 + n) else char_of (87 + n))"

definition escapeChar :: "char \<Rightarrow> string" where
  "escapeChar c =
     (if c = CHR 0x22 then [CHR 0x5C, CHR 0x22]
      else if c = CHR 0x5C then [CHR 0x5C, CHR 0x5C]
      else if c = CHR 0x08 then [CHR 0x5C, CHR ''b'']
      else if c = CHR 0x0C then [CHR 0x5C, CHR ''f'']
      else if c = CHR 0x0A then [CHR 0x5C, CHR ''n'']
      else if c = CHR 0x0D then [CHR 0x5C, CHR ''r'']
      else if c = CHR 0x09 then [CHR 0x5C, CHR ''t'']
      else if (of_char c :: nat) < 32
        then [CHR 0x5C, CHR ''u'', CHR ''0'', CHR ''0'',
              hexDigit (of_char c div 16), hexDigit (of_char c mod 16)]
      else [c])"

definition quoteJSON :: "string \<Rightarrow> string" where
  "quoteJSON s = CHR 0x22 # concat (map escapeChar s) @ [CHR 0x22]"

text \<open>
  \<^verbatim>\<open>JSON.stringify(v, null, 2)\<close>: \<open>serialize ind v\<close> writes \<open>v\<close> at the current
  indentation \<open>ind\<close>; each nesting level adds two spaces, members stand on lines of
  their own, and an empty array or object is written without a line break.
\<close>

fun serialize :: "string \<Rightarrow> json \<Rightarrow> string"
  and serialize_elems :: "string \<Rightarrow> json list \<Rightarrow> string list"
  and serialize_props :: "string \<Rightarrow> (string \<times> json) list \<Rightarrow> string list"
where
  "serialize ind JUndefined = []"
| "serialize ind JNull = ''null''"
| "serialize ind (JBool b) = (if b then ''true'' else ''false'')"
| "serialize ind (JNum n) = intToString n"
| "serialize ind (JStr s) = quoteJSON s"
| "serialize ind (JArr vs) =
     (let stepback = ind; ind' = ind @ ''  ''; partial = serialize_elems ind' vs
      in if partial = [] then ''[]''
         else ''['' @ [CHR 0x0A] @ ind' @ join ('','' @ [CHR 0x0A] @ ind') partial
              @ [CHR 0x0A] @ stepback @ '']'')"
| "serialize ind (JObj kvs) =
     (let stepback = ind; ind' = ind @ ''  ''; partial = serialize_props ind' kvs
      in if partial = [] then ''{}''
         else ''{'' @ [CHR 0x0A] @ ind' @ join ('','' @ [CHR 0x0A] @ ind') partial
              @ [CHR 0x0A] @ stepback @ ''}'')"
| "serialize_elems ind [] = []"
| "serialize_elems ind (v # vs) =
     (if v = JUndefined then ''null'' else serialize ind v) # serialize_elems ind vs"
| "serialize_props ind [] = []"
| "serialize_props ind ((k, v) # kvs) =
     (if v = JUndefined then serialize_props ind kvs
      else (quoteJSON k @ '': '' @ serialize ind v) # serialize_props ind kvs)"

definition JSON_stringify :: "json \<Rightarrow> string" where
  "JSON_stringify v = serialize [] v"

section \<open>Responses\<close>

record response =
  status :: nat
  headers :: "(string \<times> string) list"
  body :: string

text \<open>\<^verbatim>\<open>createResponse\<close>: \<open>None\<close> is an omitted \<^verbatim>\<open>status\<close> option.\<close>

definition createResponse :: "json \<Rightarrow> nat option \<Rightarrow> response" where
  "createResponse content st =
     \<lparr> status = (case st of None \<Rightarrow> 400 | Some n \<Rightarrow> n),
       headers =
         [(''Access-Control-Allow-Origin'', ''*''),
          (''Access-Control-Allow-Methods'', ''PUT''),
          (''Access-Control-Allow-Headers'', ''Content-Type''),
          (''Content-Type'', ''application/json;charset=UTF-8'')],
       body = JSON_stringify content \<rparr>"

section \<open>Requests, the bucket and the runtime\<close>

text \<open>
  A request as the handlers read it: the method (\<open>req_method\<close>), the headers (\<^verbatim>\<open>headers.get\<close> with
  the lower-case names the source uses), the query parameters of \<^verbatim>\<open>request.url\<close> in
  their order (\<^verbatim>\<open>searchParams.get\<close> returns the first value of a name) and the body.
\<close>

record request =
  req_method :: string
  req_headers :: "(string \<times> string) list"
  searchParams :: "(string \<times> string) list"
  req_body :: string

definition headers_get :: "request \<Rightarrow> string \<Rightarrow> string option" where
  "headers_get req name = map_of (req_headers req) name"

definition searchParams_get :: "request \<Rightarrow> string \<Rightarrow> string option" where
  "searchParams_get req name = map_of (searchParams req) name"

text \<open>
  The tables \<^verbatim>\<open>AGES\<close>, \<^verbatim>\<open>GENDERS\<close> and \<^verbatim>\<open>LEGACY_ACCENTS\<close> are imported from
  \<^verbatim>\<open>../data/demographics\<close>, which is not part of this file. Each table is a parameter,
  given by the two things the handler asks of it: the \<^verbatim>\<open>in\<close> operator and
  \<^verbatim>\<open>Object.keys\<close>. \<open>accent_in D l a\<close> is \<^verbatim>\<open>a in LEGACY_ACCENTS[l]\<close>.
\<close>

record demographics =
  AGES_in :: "string \<Rightarrow> bool"
  AGES_keys :: "string list"
  GENDERS_in :: "string \<Rightarrow> bool"
  GENDERS_keys :: "string list"
  LEGACY_ACCENTS_in :: "string \<Rightarrow> bool"
  LEGACY_ACCENTS_keys :: "string list"
  accent_in :: "string \<Rightarrow> string \<Rightarrow> bool"
  accent_keys :: "string \<Rightarrow> string list"

text \<open>
  A value thrown by the bucket: an \<^verbatim>\<open>Error\<close> object with its message, or any other
  value with what \<^verbatim>\<open>String(error)\<close> gives for it.
\<close>

datatype thrown = ErrorObject string | OtherValue string

definition error_text :: "thrown \<Rightarrow> string" where
  "error_text e = (case e of ErrorObject m \<Rightarrow> m | OtherValue s \<Rightarrow> s)"

text \<open>
  An object of the bucket as \<^verbatim>\<open>list\<close> and \<^verbatim>\<open>get\<close> return it. \<open>obj_uploaded\<close> is the
  string \<^verbatim>\<open>uploaded.toISOString()\<close>; \<open>obj_httpMetadata\<close> is \<open>None\<close> for \<^verbatim>\<open>undefined\<close>.
\<close>

record r2object =
  obj_key :: string
  obj_size :: nat
  obj_uploaded :: string
  obj_httpMetadata :: "(string \<times> json) list option"
  obj_body :: string

record list_options =
  opt_limit :: jsnum
  opt_prefix :: string
  opt_cursor :: "string option"

record listed =
  objects :: "r2object list"
  truncated :: bool
  cursor :: "string option"
  delimitedPrefixes :: "string list"

text \<open>
  The bucket \<^verbatim>\<open>event.env.WAKEWORD_TRAINING_BUCKET\<close> is an external collaborator: its three
  operations are parameters over a state of objects \<open>'s\<close>, and each of them either throws
  or returns.
\<close>

record 's bucket =
  bucket_put :: "string \<Rightarrow> string \<Rightarrow> 's \<Rightarrow> thrown + 's"
  bucket_list :: "list_options \<Rightarrow> 's \<Rightarrow> thrown + listed"
  bucket_get :: "string \<Rightarrow> 's \<Rightarrow> thrown + r2object option"

datatype bucket_call = Put string string | List list_options | Get string

text \<open>
  What a handler can read and change outside its request: the stored objects, the lines
  written by \<^verbatim>\<open>console.log\<close>, the calls made to the bucket, the reading of
  \<^verbatim>\<open>Date.now()\<close>, the string \<^verbatim>\<open>Math.random().toString(36).substring(2, 15)\<close>, and the
  message of the \<^verbatim>\<open>TypeError\<close> with which the runtime's \<^verbatim>\<open>Headers.set\<close> refuses a value.
\<close>

record 's world =
  stored :: 's
  console :: "string list"
  calls :: "bucket_call list"
  clock :: nat
  random_fragment :: string
  header_error :: string

text \<open>An async handler returns a response (\<open>Inr\<close>) or rejects with a thrown value (\<open>Inl\<close>).\<close>

type_synonym 's outcome = "(thrown + response) \<times> 's world"

section \<open>The upload handler\<close>

definition WAKE_WORD_ALLOWED_CONTENT_TYPES :: "string list" where
  "WAKE_WORD_ALLOWED_CONTENT_TYPES = [''audio/webm'', ''audio/ogg'', ''audio/mp4'', ''audio/wav'']"

definition WAKE_WORD_ALLOWED_NAMES :: "string list" where
  "WAKE_WORD_ALLOWED_NAMES = [''hey_nexus'']"

definition NEGATIVE_WAKE_WORD_ALLOWED_NAMES :: "string list" where
  "NEGATIVE_WAKE_WORD_ALLOWED_NAMES = [''hey_lexus'', ''hey_texas'', ''texas'']"

definition WAKE_WORD_MAX_CONTENT_LENGTH :: int where
  "WAKE_WORD_MAX_CONTENT_LENGTH = 250 * 1024"

text \<open>
  \<^verbatim>\<open>contentLengthHeaderValue && parseInt(contentLengthHeaderValue, 10)\<close> is \<^verbatim>\<open>null\<close>
  for an absent header, the empty string for an empty one, and a number otherwise.
\<close>

datatype content_length = CLNull | CLEmpty | CLNumber jsnum

definition contentType_of :: "request \<Rightarrow> string option" where
  "contentType_of req = map_option (split_first CHR '';'') (headers_get req ''content-type'')"

definition contentLength_of :: "request \<Rightarrow> content_length" where
  "contentLength_of req =
     (case headers_get req ''content-length'' of
        None \<Rightarrow> CLNull
      | Some v \<Rightarrow> if v = [] then CLEmpty else CLNumber (parseInt v))"

text \<open>\<^verbatim>\<open>!contentLength || contentLength > WAKE_WORD_MAX_CONTENT_LENGTH\<close>.\<close>

definition contentLength_rejected :: "content_length \<Rightarrow> bool" where
  "contentLength_rejected cl =
     (case cl of
        CLNull \<Rightarrow> True
      | CLEmpty \<Rightarrow> True
      | CLNumber NaN \<Rightarrow> True
      | CLNumber (Num n) \<Rightarrow> n = 0 \<or> n > WAKE_WORD_MAX_CONTENT_LENGTH)"

definition contentLength_text :: "content_length \<Rightarrow> string" where
  "contentLength_text cl =
     (case cl of CLNull \<Rightarrow> ''null'' | CLEmpty \<Rightarrow> [] | CLNumber v \<Rightarrow> numToString v)"

definition undefined_text :: "string option \<Rightarrow> string" where
  "undefined_text v = (case v of None \<Rightarrow> ''undefined'' | Some s \<Rightarrow> s)"

text \<open>The string of a value that has been checked to be truthy.\<close>

definition str :: "string option \<Rightarrow> string" where
  "str v = (case v of None \<Rightarrow> [] | Some s \<Rightarrow> s)"

definition message :: "string \<Rightarrow> json" where
  "message m = JObj [(''message'', JStr m)]"

text \<open>
  The language and accent block of the upload handler: \<open>Inl\<close> is the error response of
  the first failing check, \<open>Inr\<close> the value of \<^verbatim>\<open>languageAccent\<close> after the block.
\<close>

definition languageAccent_of ::
  "demographics \<Rightarrow> string option \<Rightarrow> string option \<Rightarrow> response + string option" where
  "languageAccent_of D language accent =
     (if truthy language \<or> truthy accent then
        if \<not> truthy language \<or> \<not> truthy accent then
          Inl (createResponse (message ''Both language and accent must be provided together'') None)
        else if \<not> LEGACY_ACCENTS_in D (str language) then
          Inl (createResponse
                 (message (''Invalid language, received: '' @ str language @ '', allowed: ''
                           @ join '', '' (LEGACY_ACCENTS_keys D))) None)
        else if \<not> accent_in D (str language) (str accent) then
          Inl (createResponse
                 (message (''Invalid accent for language '' @ str language @ '', received: ''
                           @ str accent @ '', allowed: ''
                           @ join '', '' (accent_keys D (str language)))) None)
        else Inr (Some (str language @ ''_'' @ str accent))
      else Inr None)"

text \<open>\<^verbatim>\<open>v || null\<close> on a nullable string.\<close>

definition or_null :: "string option \<Rightarrow> string option" where
  "or_null v = (if truthy v then v else None)"

definition filenameParts ::
  "bool \<Rightarrow> string \<Rightarrow> string option \<Rightarrow> string \<Rightarrow> string \<Rightarrow> string \<Rightarrow> string option list" where
  "filenameParts isNegative wakeWord languageAccent age gender identifier =
     filter (\<lambda>part. part \<noteq> None \<and> part \<noteq> Some [])
       [if isNegative then Some ''negative'' else None,
        Some wakeWord,
        or_null languageAccent,
        or_null (Some age),
        Some gender,
        Some identifier]"

definition uniqueId :: "'s world \<Rightarrow> string" where
  "uniqueId w = natToString (clock w) @ ''-'' @ random_fragment w"

text \<open>The values the handler reads from the query and the headers before its checks.\<close>

definition age_of :: "request \<Rightarrow> string" where
  "age_of req = or_default (searchParams_get req ''age'') []"

definition gender_of :: "request \<Rightarrow> string" where
  "gender_of req = or_default (searchParams_get req ''gender'') ''do_not_wish_to_say''"

text \<open>\<^verbatim>\<open>cfRay || uniqueId\<close>.\<close>

definition identifier_of :: "request \<Rightarrow> 's world \<Rightarrow> string" where
  "identifier_of req w = or_default (headers_get req ''cf-ray'') (uniqueId w)"

text \<open>The response of the gender check when it fails.\<close>

definition gender_rejection :: "demographics \<Rightarrow> string \<Rightarrow> response" where
  "gender_rejection D gender =
     createResponse
       (message (''Invalid gender, received: '' @ gender @ '', allowed: ''
                 @ join '', '' (GENDERS_keys D))) None"

text \<open>
  The upload handler up to the line that computes \<^verbatim>\<open>key\<close>: \<open>Inl\<close> is the response
  returned by the first failing check, \<open>Inr\<close> is the key of a request that passed all
  of them.
\<close>

definition upload_key :: "demographics \<Rightarrow> request \<Rightarrow> 's world \<Rightarrow> response + string" where
  "upload_key D req w =
     (let contentType = contentType_of req;
          contentLength = contentLength_of req;
          wakeWord = searchParams_get req ''wake_word'';
          age = age_of req;
          gender = gender_of req;
          language = searchParams_get req ''language'';
          accent = searchParams_get req ''accent''
      in
      if req_method req \<noteq> ''PUT'' then
        Inl (createResponse (message ''Invalid method'') (Some 405))
      else if \<not> truthy contentType \<or> str contentType \<notin> set WAKE_WORD_ALLOWED_CONTENT_TYPES then
        Inl (createResponse
               (message (''Invalid content-type, received: '' @ undefined_text contentType
                         @ '', allowed: '' @ join '','' WAKE_WORD_ALLOWED_CONTENT_TYPES))
               (Some 415))
      else if contentLength_rejected contentLength then
        Inl (createResponse
               (message (''Invalid content-length, received: '' @ contentLength_text contentLength
                         @ '', allowed [<'' @ intToString WAKE_WORD_MAX_CONTENT_LENGTH @ '']''))
               (Some 413))
      else if \<not> truthy wakeWord then
        Inl (createResponse (message ''Invalid parameters: missing wake_word'') None)
      else if str wakeWord \<notin> set (WAKE_WORD_ALLOWED_NAMES @ NEGATIVE_WAKE_WORD_ALLOWED_NAMES) then
        Inl (createResponse (message (''Invalid wake word, received: '' @ str wakeWord)) None)
      else if \<not> AGES_in D age then
        Inl (createResponse
               (message (''Invalid age, received: '' @ age @ '', allowed: ''
                         @ join '', '' (filter (\<lambda>k. k \<noteq> []) (AGES_keys D)))) None)
      else if \<not> GENDERS_in D gender then
        Inl (gender_rejection D gender)
      else
        (case languageAccent_of D language accent of
           Inl r \<Rightarrow> Inl r
         | Inr languageAccent \<Rightarrow>
             (let isNegative = (str wakeWord \<in> set NEGATIVE_WAKE_WORD_ALLOWED_NAMES);
                  keyExtension = replace ''audio/'' [] (str contentType);
                  identifier = identifier_of req w
              in Inr (join ''-''
                        (map str (filenameParts isNegative (str wakeWord) languageAccent
                                    age gender identifier))
                      @ ''.'' @ keyExtension))))"

text \<open>
  The handler: a failed check returns its response and nothing else happens; otherwise
  the key is logged, the body is put under the key, and an error thrown by \<^verbatim>\<open>put\<close> is
  not caught.
\<close>

definition handleUploadAudioFile ::
  "demographics \<Rightarrow> 's bucket \<Rightarrow> request \<Rightarrow> 's world \<Rightarrow> 's outcome" where
  "handleUploadAudioFile D B req w =
     (case upload_key D req w of
        Inl r \<Rightarrow> (Inr r, w)
      | Inr key \<Rightarrow>
          (let w1 = w\<lparr>console := console w @ [key]\<rparr>;
               w2 = w1\<lparr>calls := calls w1 @ [Put key (req_body req)]\<rparr>
           in case bucket_put B key (req_body req) (stored w2) of
                Inl e \<Rightarrow> (Inl e, w2)
              | Inr s' \<Rightarrow>
                  (Inr (createResponse
                          (JObj [(''message'', JStr ''success''), (''key'', JStr key)])
                          (Some 201)),
                   w2\<lparr>stored := s'\<rparr>)))"

section \<open>The list handler\<close>

definition object_summary :: "r2object \<Rightarrow> json" where
  "object_summary obj =
     JObj [(''key'', JStr (obj_key obj)),
           (''size'', JNum (int (obj_size obj))),
           (''uploaded'', JStr (obj_uploaded obj)),
           (''httpMetadata'',
              (case obj_httpMetadata obj of None \<Rightarrow> JUndefined | Some m \<Rightarrow> JObj m))]"

text \<open>The argument of the \<^verbatim>\<open>list\<close> call.\<close>

definition list_options_of :: "request \<Rightarrow> list_options" where
  "list_options_of req =
     (let limit = parseInt (or_default (searchParams_get req ''limit'') ''1000'');
          prefix = or_default (searchParams_get req ''prefix'') [];
          cursor_param = or_null (searchParams_get req ''cursor'')
      in \<lparr> opt_limit = Math_min limit 1000, opt_prefix = prefix, opt_cursor = cursor_param \<rparr>)"

definition handleListFiles :: "'s bucket \<Rightarrow> request \<Rightarrow> 's world \<Rightarrow> 's outcome" where
  "handleListFiles B req w =
     (let options = list_options_of req;
          w1 = w\<lparr>calls := calls w @ [List options]\<rparr>
      in case bucket_list B options (stored w1) of
           Inr listed \<Rightarrow>
             (Inr \<lparr> status = 200,
                    headers =
                      [(''Access-Control-Allow-Origin'', ''*''),
                       (''Access-Control-Allow-Methods'', ''GET''),
                       (''Access-Control-Allow-Headers'', ''Content-Type''),
                       (''Content-Type'', ''application/json;charset=UTF-8'')],
                    body = JSON_stringify
                      (JObj [(''objects'', JArr (map object_summary (objects listed))),
                             (''truncated'', JBool (truncated listed)),
                             (''cursor'',
                                (case cursor listed of None \<Rightarrow> JUndefined | Some c \<Rightarrow> JStr c)),
                             (''delimitedPrefixes'', JArr (map JStr (delimitedPrefixes listed)))]) \<rparr>,
              w1)
         | Inl error \<Rightarrow>
             (Inr (createResponse
                     (JObj [(''message'', JStr ''Error listing files''),
                            (''error'', JStr (error_text error))])
                     (Some 500)),
              w1))"

section \<open>The download handler\<close>

text \<open>
  \<^verbatim>\<open>Headers.set(name, value)\<close>: leading and trailing HTTP white space (tab, line feed,
  carriage return, space) is stripped from the value; a value that then holds a NUL, a
  line feed or a carriage return is refused with a \<^verbatim>\<open>TypeError\<close>; otherwise the value of
  an existing name is replaced and a new name is appended. \<open>msg\<close> is the message of the
  \<^verbatim>\<open>TypeError\<close>.
\<close>

definition isHttpWhitespace :: "char \<Rightarrow> bool" where
  "isHttpWhitespace c \<longleftrightarrow> c \<in> set [CHR 0x09, CHR 0x0A, CHR 0x0D, CHR 0x20]"

definition normalize_value :: "string \<Rightarrow> string" where
  "normalize_value v = rev (dropWhile isHttpWhitespace (rev (dropWhile isHttpWhitespace v)))"

definition value_refused :: "string \<Rightarrow> bool" where
  "value_refused v \<longleftrightarrow> CHR 0x00 \<in> set v \<or> CHR 0x0A \<in> set v \<or> CHR 0x0D \<in> set v"

fun headers_put :: "string \<Rightarrow> string \<Rightarrow> (string \<times> string) list \<Rightarrow> (string \<times> string) list" where
  "headers_put k v [] = [(k, v)]"
| "headers_put k v ((k', v') # hs) =
     (if k' = k then (k, v) # hs else (k', v') # headers_put k v hs)"

definition headers_set ::
  "string \<Rightarrow> string \<Rightarrow> string \<Rightarrow> (string \<times> string) list \<Rightarrow> thrown + (string \<times> string) list" where
  "headers_set msg k v hs =
     (if value_refused (normalize_value v) then Inl (ErrorObject msg)
      else Inr (headers_put k (normalize_value v) hs))"

text \<open>A sequence of \<^verbatim>\<open>headers.set\<close> calls: the first one that throws ends the sequence.\<close>

fun headers_set_all ::
  "string \<Rightarrow> (string \<times> string) list \<Rightarrow> (string \<times> string) list \<Rightarrow> thrown + (string \<times> string) list" where
  "headers_set_all msg [] hs = Inr hs"
| "headers_set_all msg ((k, v) # kvs) hs =
     (case headers_set msg k v hs of
        Inl e \<Rightarrow> Inl e
      | Inr hs' \<Rightarrow> headers_set_all msg kvs hs')"

text \<open>\<^verbatim>\<open>object.httpMetadata?.contentType\<close>, a string when it is set.\<close>

definition metadata_contentType :: "r2object \<Rightarrow> string option" where
  "metadata_contentType obj =
     (case obj_httpMetadata obj of
        None \<Rightarrow> None
      | Some m \<Rightarrow> (case map_of m ''contentType'' of Some (JStr t) \<Rightarrow> Some t | _ \<Rightarrow> None))"

text \<open>
  The headers of a download: the calls of \<^verbatim>\<open>headers.set\<close> in the order of the source,
  on a new \<^verbatim>\<open>Headers\<close> object.
\<close>

definition download_headers ::
  "string \<Rightarrow> string \<Rightarrow> r2object \<Rightarrow> thrown + (string \<times> string) list" where
  "download_headers msg key object =
     headers_set_all msg
       ([(''Access-Control-Allow-Origin'', ''*''),
         (''Access-Control-Allow-Methods'', ''GET''),
         (''Access-Control-Allow-Headers'', ''Content-Type'')]
        @ (if truthy (metadata_contentType object)
           then [(''Content-Type'', str (metadata_contentType object))] else [])
        @ [(''Content-Disposition'', ''attachment; filename='' @ [CHR 0x22] @ key @ [CHR 0x22]),
           (''Content-Length'', natToString (obj_size object))])
       []"

text \<open>
  The handler: \<^verbatim>\<open>get\<close> and the construction of the headers and the response are inside
  the \<^verbatim>\<open>try\<close>, so a value thrown by either is caught and answered with status 500.
\<close>

definition handleDownloadFile :: "'s bucket \<Rightarrow> request \<Rightarrow> 's world \<Rightarrow> 's outcome" where
  "handleDownloadFile B req w =
     (let key = searchParams_get req ''key''
      in if \<not> truthy key then
           (Inr (createResponse (message ''Missing required parameter: key'') (Some 400)), w)
         else
           (let w1 = w\<lparr>calls := calls w @ [Get (str key)]\<rparr>;
                caught = (\<lambda>error.
                  createResponse
                    (JObj [(''message'', JStr ''Error downloading file''),
                           (''error'', JStr (error_text error))])
                    (Some 500))
            in case bucket_get B (str key) (stored w1) of
                 Inr None \<Rightarrow>
                   (Inr (createResponse (message (''File not found: '' @ str key)) (Some 404)), w1)
               | Inr (Some object) \<Rightarrow>
                   (case download_headers (header_error w1) (str key) object of
                      Inr hs \<Rightarrow> (Inr \<lparr> status = 200, headers = hs, body = obj_body object \<rparr>, w1)
                    | Inl error \<Rightarrow> (Inr (caught error), w1))
               | Inl error \<Rightarrow> (Inr (caught error), w1)))"

section \<open>The dispatcher\<close>

definition WAKE_WORD_TRAINING_UPLOAD :: string where
  "WAKE_WORD_TRAINING_UPLOAD = ''/assist/wake_word/training_data/upload''"

definition WAKE_WORD_TRAINING_LIST :: string where
  "WAKE_WORD_TRAINING_LIST = ''/assist/wake_word/training_data/list''"

definition WAKE_WORD_TRAINING_DOWNLOAD :: string where
  "WAKE_WORD_TRAINING_DOWNLOAD = ''/assist/wake_word/training_data/download''"

text \<open>\<open>pathname\<close> is \<^verbatim>\<open>requestUrl.pathname\<close>, \<open>req\<close> is \<^verbatim>\<open>event.request\<close>.\<close>

definition assistHandler ::
  "demographics \<Rightarrow> 's bucket \<Rightarrow> string \<Rightarrow> request \<Rightarrow> 's world \<Rightarrow> 's outcome" where
  "assistHandler D B pathname req w =
     (if req_method req = ''OPTIONS'' then
        (Inr (createResponse (JStr ''ok'') (Some 200)), w)
      else if pathname = WAKE_WORD_TRAINING_UPLOAD then handleUploadAudioFile D B req w
      else if pathname = WAKE_WORD_TRAINING_LIST then handleListFiles B req w
      else if pathname = WAKE_WORD_TRAINING_DOWNLOAD then handleDownloadFile B req w
      else (Inr (createResponse (JStr ''Not Found'') (Some 404)), w))"

section \<open>The notions of the specification\<close>

text \<open>
  \<open>upload_valid\<close> is a request that passes every check of the upload handler, each check
  as the handler tests it: the method is PUT, the base media type is on the allow-list,
  the content length is not rejected by the handler's length test, the wake word is on
  the positive or the negative list, age and gender are keys of their tables, and
  language and accent are given together, with the language a key of the accent table
  and the accent a key of that language's table, or not given at all.
\<close>

definition language_accent_valid :: "demographics \<Rightarrow> string option \<Rightarrow> string option \<Rightarrow> bool" where
  "language_accent_valid D language accent \<longleftrightarrow>
     (\<not> truthy language \<and> \<not> truthy accent)
     \<or> (truthy language \<and> truthy accent
        \<and> LEGACY_ACCENTS_in D (str language) \<and> accent_in D (str language) (str accent))"

definition contentType_allowed :: "request \<Rightarrow> bool" where
  "contentType_allowed req =
     (case contentType_of req of None \<Rightarrow> False
      | Some ct \<Rightarrow> ct \<in> set WAKE_WORD_ALLOWED_CONTENT_TYPES)"

definition wake_word_allowed :: "request \<Rightarrow> bool" where
  "wake_word_allowed req =
     (case searchParams_get req ''wake_word'' of None \<Rightarrow> False
      | Some ww \<Rightarrow> ww \<in> set (WAKE_WORD_ALLOWED_NAMES @ NEGATIVE_WAKE_WORD_ALLOWED_NAMES))"

definition upload_valid :: "demographics \<Rightarrow> request \<Rightarrow> bool" where
  "upload_valid D req \<longleftrightarrow>
     req_method req = ''PUT''
     \<and> contentType_allowed req
     \<and> \<not> contentLength_rejected (contentLength_of req)
     \<and> wake_word_allowed req
     \<and> AGES_in D (age_of req)
     \<and> GENDERS_in D (gender_of req)
     \<and> language_accent_valid D (searchParams_get req ''language'') (searchParams_get req ''accent'')"

text \<open>
  The length check in the words of the specification: the Content-Length is present,
  parses as a positive integer and does not exceed 256000. \<open>spec_upload_valid\<close> is a
  valid upload in the words of the specification: \<open>upload_valid\<close> with this length check
  in the place of the handler's test.
\<close>

definition spec_length_ok :: "request \<Rightarrow> bool" where
  "spec_length_ok req =
     (case headers_get req ''content-length'' of
        None \<Rightarrow> False
      | Some v \<Rightarrow> (case parseInt v of NaN \<Rightarrow> False | Num n \<Rightarrow> 0 < n \<and> n \<le> 256000))"

definition spec_upload_valid :: "demographics \<Rightarrow> request \<Rightarrow> bool" where
  "spec_upload_valid D req \<longleftrightarrow>
     req_method req = ''PUT''
     \<and> contentType_allowed req
     \<and> spec_length_ok req
     \<and> wake_word_allowed req
     \<and> AGES_in D (age_of req)
     \<and> GENDERS_in D (gender_of req)
     \<and> language_accent_valid D (searchParams_get req ''language'') (searchParams_get req ''accent'')"

text \<open>The status the specification gives to the first failing check of an upload.\<close>

definition rejection_status :: "request \<Rightarrow> nat" where
  "rejection_status req =
     (if req_method req \<noteq> ''PUT'' then 405
      else if \<not> contentType_allowed req then 415
      else if contentLength_rejected (contentLength_of req) then 413
      else 400)"

text \<open>
  The storage key in the words of the specification: the parts that are neither absent
  nor empty, in their fixed order, joined by hyphens, then a dot and the subtype of the
  content type (what follows the slash).
\<close>

definition present :: "string option list \<Rightarrow> string list" where
  "present parts =
     concat (map (\<lambda>p. case p of None \<Rightarrow> [] | Some s \<Rightarrow> if s = [] then [] else [s]) parts)"

definition subtype :: "string \<Rightarrow> string" where
  "subtype ct = drop 1 (dropWhile (\<lambda>c. c \<noteq> CHR ''/'') ct)"

definition wake_word_of :: "request \<Rightarrow> string" where
  "wake_word_of req = str (searchParams_get req ''wake_word'')"

definition expected_key :: "request \<Rightarrow> 's world \<Rightarrow> string" where
  "expected_key req w =
     (let language = searchParams_get req ''language'';
          accent = searchParams_get req ''accent''
      in join ''-''
           (present
              [if wake_word_of req \<in> set NEGATIVE_WAKE_WORD_ALLOWED_NAMES then Some ''negative'' else None,
               Some (wake_word_of req),
               if truthy language \<and> truthy accent then Some (str language @ ''_'' @ str accent) else None,
               if age_of req \<noteq> [] then Some (age_of req) else None,
               Some (gender_of req),
               Some (identifier_of req w)])
         @ ''.'' @ subtype (str (contentType_of req)))"

text \<open>\<open>startsWith p s\<close>: the string \<open>s\<close> begins with \<open>p\<close>.\<close>

definition startsWith :: "string \<Rightarrow> string \<Rightarrow> bool" where
  "startsWith p s \<longleftrightarrow> take (length p) s = p"

section \<open>Concrete tables, buckets and requests\<close>

text \<open>
  A small instance of the reference tables, an in-memory bucket that keeps the bodies
  under their keys, a bucket whose every operation throws, and a world to run them in.
\<close>

definition example_demographics :: demographics where
  "example_demographics =
     \<lparr> AGES_in = (\<lambda>k. k \<in> set [[], ''child'', ''adult'']),
       AGES_keys = [[], ''child'', ''adult''],
       GENDERS_in = (\<lambda>k. k \<in> set [''female'', ''male'', ''do_not_wish_to_say'']),
       GENDERS_keys = [''female'', ''male'', ''do_not_wish_to_say''],
       LEGACY_ACCENTS_in = (\<lambda>k. k \<in> set [''en'']),
       LEGACY_ACCENTS_keys = [''en''],
       accent_in = (\<lambda>l a. l = ''en'' \<and> a \<in> set [''us'', ''gb'']),
       accent_keys = (\<lambda>l. if l = ''en'' then [''us'', ''gb''] else []) \<rparr>"

definition memory_bucket :: "(string \<times> string) list bucket" where
  "memory_bucket =
     \<lparr> bucket_put = (\<lambda>k b s. Inr ((k, b) # s)),
       bucket_list = (\<lambda>opts s.
          Inr \<lparr> objects = map (\<lambda>(k, b). \<lparr> obj_key = k, obj_size = length b, obj_uploaded = [],
                                        obj_httpMetadata = None, obj_body = b \<rparr>) s,
                truncated = False, cursor = None, delimitedPrefixes = [] \<rparr>),
       bucket_get = (\<lambda>k s.
          Inr (map_option (\<lambda>b. \<lparr> obj_key = k, obj_size = length b, obj_uploaded = [],
                                  obj_httpMetadata = None, obj_body = b \<rparr>) (map_of s k))) \<rparr>"

definition failing_bucket :: "(string \<times> string) list bucket" where
  "failing_bucket =
     \<lparr> bucket_put = (\<lambda>k b s. Inl (ErrorObject ''Network connection lost.'')),
       bucket_list = (\<lambda>opts s. Inl (ErrorObject ''Network connection lost.'')),
       bucket_get = (\<lambda>k s. Inl (OtherValue ''timeout'')) \<rparr>"

definition empty_world :: "(string \<times> string) list world" where
  "empty_world =
     \<lparr> stored = [], console = [], calls = [], clock = 1700000000000,
       random_fragment = ''k3j9x0q2m'', header_error = ''Invalid header value.'' \<rparr>"

definition upload_request :: "string \<Rightarrow> (string \<times> string) list \<Rightarrow> request" where
  "upload_request contentLength params =
     \<lparr> req_method = ''PUT'',
       req_headers = [(''content-type'', ''audio/webm;codecs=opus''),
                      (''content-length'', contentLength),
                      (''cf-ray'', ''8f2a1b3c4d5e6f70-AMS'')],
       searchParams = params,
       req_body = ''RIFF'' \<rparr>"

definition get_request :: "(string \<times> string) list \<Rightarrow> request" where
  "get_request params =
     \<lparr> req_method = ''GET'', req_headers = [], searchParams = params, req_body = [] \<rparr>"

section \<open>Properties\<close>

lemma status_createResponse [simp]:
  "status (createResponse c st) = (case st of None \<Rightarrow> 400 | Some n \<Rightarrow> n)"
  by (simp add: createResponse_def)

lemma body_createResponse [simp]: "body (createResponse c st) = JSON_stringify c"
  by (simp add: createResponse_def)

lemma headers_createResponse [simp]:
  "headers (createResponse c st) =
     [(''Access-Control-Allow-Origin'', ''*''),
      (''Access-Control-Allow-Methods'', ''PUT''),
      (''Access-Control-Allow-Headers'', ''Content-Type''),
      (''Content-Type'', ''application/json;charset=UTF-8'')]"
  by (simp add: createResponse_def)

lemma JSON_stringify_JStr: "JSON_stringify (JStr s) = quoteJSON s"
  by (simp add: JSON_stringify_def)

subsection \<open>Evaluation of the concrete requests\<close>

lemmas request_simps =
  upload_request_def get_request_def headers_get_def searchParams_get_def
  contentType_of_def contentLength_of_def split_first_def age_of_def gender_of_def
  wake_word_of_def identifier_of_def or_default_def truthy_def str_def

lemmas parse_simps =
  parseInt_def isWhiteSpace_def isDigit_def digitValue_def digitsValue_def
  contentLength_rejected_def WAKE_WORD_MAX_CONTENT_LENGTH_def

lemmas table_simps =
  example_demographics_def WAKE_WORD_ALLOWED_CONTENT_TYPES_def WAKE_WORD_ALLOWED_NAMES_def
  NEGATIVE_WAKE_WORD_ALLOWED_NAMES_def

lemmas valid_simps =
  upload_valid_def contentType_allowed_def wake_word_allowed_def language_accent_valid_def

lemma JSON_stringify_message:
  "JSON_stringify (message m) = ''{'' @ [CHR 0x0A] @ ''  '' @ quoteJSON ''message'' @ '': '' @ quoteJSON m @ [CHR 0x0A] @ ''}''"
  by (simp add: JSON_stringify_def message_def)

subsection \<open>The checks of the upload handler\<close>

lemma languageAccent_of_valid:
  "language_accent_valid D l a \<Longrightarrow>
   languageAccent_of D l a = Inr (if truthy l \<and> truthy a then Some (str l @ ''_'' @ str a) else None)"
  by (auto simp: language_accent_valid_def languageAccent_of_def)

lemma languageAccent_of_invalid:
  "\<not> language_accent_valid D l a \<Longrightarrow> \<exists>r. languageAccent_of D l a = Inl r \<and> status r = 400"
  by (auto simp: language_accent_valid_def languageAccent_of_def)

lemma contentType_allowed_iff:
  "contentType_allowed req \<longleftrightarrow>
   truthy (contentType_of req) \<and> str (contentType_of req) \<in> set WAKE_WORD_ALLOWED_CONTENT_TYPES"
  by (auto simp: contentType_allowed_def truthy_def str_def WAKE_WORD_ALLOWED_CONTENT_TYPES_def
      split: option.splits)

lemma wake_word_allowed_iff:
  "wake_word_allowed req \<longleftrightarrow>
   truthy (searchParams_get req ''wake_word'')
   \<and> str (searchParams_get req ''wake_word'')
       \<in> set (WAKE_WORD_ALLOWED_NAMES @ NEGATIVE_WAKE_WORD_ALLOWED_NAMES)"
  by (auto simp: wake_word_allowed_def truthy_def str_def WAKE_WORD_ALLOWED_NAMES_def
      NEGATIVE_WAKE_WORD_ALLOWED_NAMES_def split: option.splits)

lemma upload_key_invalid:
  assumes "\<not> upload_valid D req"
  shows "\<exists>r. upload_key D req w = Inl r \<and> status r = rejection_status req"
proof -
  consider (m) "req_method req \<noteq> ''PUT''"
    | (ct) "req_method req = ''PUT''" "\<not> contentType_allowed req"
    | (cl) "req_method req = ''PUT''" "contentType_allowed req"
           "contentLength_rejected (contentLength_of req)"
    | (rest) "req_method req = ''PUT''" "contentType_allowed req"
           "\<not> contentLength_rejected (contentLength_of req)"
    by blast
  then show ?thesis
  proof cases
    case m
    then show ?thesis by (simp add: upload_key_def rejection_status_def Let_def)
  next
    case ct
    then show ?thesis
      by (simp add: upload_key_def rejection_status_def Let_def contentType_allowed_iff)
  next
    case cl
    then show ?thesis
      by (simp add: upload_key_def rejection_status_def Let_def contentType_allowed_iff)
  next
    case rest
    have st: "rejection_status req = 400" using rest by (simp add: rejection_status_def)
    from rest assms have
      "\<not> wake_word_allowed req \<or> \<not> AGES_in D (age_of req) \<or> \<not> GENDERS_in D (gender_of req)
       \<or> \<not> language_accent_valid D (searchParams_get req ''language'') (searchParams_get req ''accent'')"
      by (simp add: upload_valid_def)
    then show ?thesis
      using rest languageAccent_of_invalid [of D "searchParams_get req ''language''" "searchParams_get req ''accent''"]
      by (auto simp: upload_key_def st Let_def contentType_allowed_iff wake_word_allowed_iff gender_rejection_def
          split: sum.splits dest: languageAccent_of_valid)
  qed
qed

lemma upload_key_valid:
  assumes "upload_valid D req"
  shows "upload_key D req w =
    Inr (join ''-''
           (map str (filenameParts (wake_word_of req \<in> set NEGATIVE_WAKE_WORD_ALLOWED_NAMES)
                       (wake_word_of req)
                       (if truthy (searchParams_get req ''language'') \<and> truthy (searchParams_get req ''accent'')
                        then Some (str (searchParams_get req ''language'') @ ''_''
                                   @ str (searchParams_get req ''accent''))
                        else None)
                       (age_of req) (gender_of req) (identifier_of req w)))
         @ ''.'' @ replace ''audio/'' [] (str (contentType_of req)))"
proof -
  from assms have la: "language_accent_valid D (searchParams_get req ''language'') (searchParams_get req ''accent'')"
    by (simp add: upload_valid_def)
  from assms show ?thesis
    unfolding upload_key_def Let_def languageAccent_of_valid [OF la]
    by (simp add: upload_valid_def contentType_allowed_iff wake_word_allowed_iff wake_word_of_def)
qed

lemma upload_key_Inr_valid: "upload_key D req w = Inr key \<Longrightarrow> upload_valid D req"
  using upload_key_invalid [of D req w] by auto

lemma map_str_filenameParts:
  "map str (filenameParts neg ww la age g i) =
   present [if neg then Some ''negative'' else None, Some ww, la,
            if age \<noteq> [] then Some age else None, Some g, Some i]"
  by (cases la) (simp_all add: filenameParts_def present_def or_null_def truthy_def str_def)

lemma replace_audio_subtype:
  "ct \<in> set WAKE_WORD_ALLOWED_CONTENT_TYPES \<Longrightarrow> replace ''audio/'' [] ct = subtype ct"
  by (auto simp: WAKE_WORD_ALLOWED_CONTENT_TYPES_def subtype_def)

lemma upload_key_expected:
  assumes "upload_valid D req"
  shows "upload_key D req w = Inr (expected_key req w)"
proof -
  from assms have ct: "str (contentType_of req) \<in> set WAKE_WORD_ALLOWED_CONTENT_TYPES"
    by (simp add: upload_valid_def contentType_allowed_iff)
  show ?thesis
    unfolding upload_key_valid [OF assms] map_str_filenameParts replace_audio_subtype [OF ct]
    by (simp add: expected_key_def Let_def)
qed

lemma join_append:
  "xs \<noteq> [] \<Longrightarrow> zs \<noteq> [] \<Longrightarrow> join sep (xs @ zs) = join sep xs @ sep @ join sep zs"
proof (induction sep xs rule: join.induct)
  case (1 sep)
  then show ?case by simp
next
  case (2 sep x)
  then show ?case by (cases zs) simp_all
next
  case (3 sep x y ys)
  then show ?case by simp
qed


lemma join_Cons: "join sep (x # xs) = (if xs = [] then x else x @ sep @ join sep xs)"
  by (cases xs) simp_all

lemma present_Cons:
  "present (p # ps) = (case p of None \<Rightarrow> present ps | Some s \<Rightarrow> if s = [] then present ps else s # present ps)"
  by (simp add: present_def split: option.splits)

lemma present_last2:
  "g \<noteq> [] \<Longrightarrow> i \<noteq> [] \<Longrightarrow> present (ps @ [Some g, Some i]) = present ps @ [g, i]"
  by (simp add: present_def)

subsection \<open>The dispatcher\<close>

text \<open>
  C8. A request with method OPTIONS gets status 200 and the body \<^verbatim>\<open>"ok"\<close> (the string
  \<^verbatim>\<open>ok\<close> encoded as JSON), whatever its path and whatever the bucket would do: the
  world, with its stored objects and its record of bucket calls, is returned as it was.
\<close>

theorem options_preflight:
  assumes "req_method req = ''OPTIONS''"
  shows "\<exists>r. assistHandler D B pathname req w = (Inr r, w)
             \<and> status r = 200 \<and> body r = [CHR 0x22] @ ''ok'' @ [CHR 0x22]"
  using assms
  by (simp add: assistHandler_def JSON_stringify_JStr quoteJSON_def escapeChar_def)

theorem options_preflight_witness:
  "req_method (get_request [] \<lparr>req_method := ''OPTIONS''\<rparr>) = ''OPTIONS''
   \<and> (\<exists>r. assistHandler example_demographics failing_bucket ''/no/such/route''
              (get_request [] \<lparr>req_method := ''OPTIONS''\<rparr>) empty_world = (Inr r, empty_world)
            \<and> status r = 200 \<and> body r = [CHR 0x22] @ ''ok'' @ [CHR 0x22])"
  using options_preflight [of "get_request [] \<lparr>req_method := ''OPTIONS''\<rparr>"
      example_demographics failing_bucket "''/no/such/route''" empty_world]
  by (simp add: get_request_def)

subsection \<open>Uploads\<close>

text \<open>
  An upload request that fails one of the handler's own checks gets the error response
  of the first failing check, with status 405, 415, 413 or 400 in the order of the
  checks, and the world is returned as it was: no object is stored and the bucket is not
  called, whatever the bucket would do.
\<close>

lemma upload_rejected_no_put:
  assumes "\<not> upload_valid D req"
  shows "\<exists>r. handleUploadAudioFile D B req w = (Inr r, w)
             \<and> status r = rejection_status req \<and> status r \<in> {400, 405, 413, 415}"
proof -
  from upload_key_invalid [OF assms, of w] obtain r where
    r: "upload_key D req w = Inl r" "status r = rejection_status req" by blast
  have "rejection_status req \<in> {400, 405, 413, 415}" by (simp add: rejection_status_def)
  with r show ?thesis by (simp add: handleUploadAudioFile_def)
qed

lemma upload_rejected_no_put_example:
  "\<not> upload_valid example_demographics (upload_request ''300000'' [(''wake_word'', ''hey_nexus'')])
   \<and> (\<exists>r. handleUploadAudioFile example_demographics memory_bucket
              (upload_request ''300000'' [(''wake_word'', ''hey_nexus'')]) empty_world
            = (Inr r, empty_world)
          \<and> status r = 413)"
proof -
  have h: "\<not> upload_valid example_demographics (upload_request ''300000'' [(''wake_word'', ''hey_nexus'')])"
    by (simp add: valid_simps request_simps parse_simps table_simps)
  have s: "rejection_status (upload_request ''300000'' [(''wake_word'', ''hey_nexus'')]) = 413"
    by (simp add: rejection_status_def valid_simps request_simps parse_simps table_simps)
  show ?thesis
    using h upload_rejected_no_put [OF h, of memory_bucket empty_world] by (auto simp: s)
qed



text \<open>
  C4. For an upload request that passes all checks, the key begins with \<^verbatim>\<open>negative-\<close>
  exactly when the wake word is on the negative list; for a wake word of the positive
  list it does not begin with \<^verbatim>\<open>negative-\<close>.
\<close>

theorem negative_prefix:
  assumes "upload_valid D req"
  shows "\<exists>key. upload_key D req w = Inr key
           \<and> (startsWith ''negative-'' key \<longleftrightarrow> wake_word_of req \<in> set NEGATIVE_WAKE_WORD_ALLOWED_NAMES)
           \<and> (wake_word_of req \<in> set WAKE_WORD_ALLOWED_NAMES \<longrightarrow> \<not> startsWith ''negative-'' key)"
proof -
  have k: "upload_key D req w = Inr (expected_key req w)"
    by (rule upload_key_expected [OF assms])
  from assms have "wake_word_of req \<in> set (WAKE_WORD_ALLOWED_NAMES @ NEGATIVE_WAKE_WORD_ALLOWED_NAMES)"
    by (simp add: upload_valid_def wake_word_allowed_iff wake_word_of_def)
  then consider (pos) "wake_word_of req = ''hey_nexus''"
    | (neg) "wake_word_of req \<in> set NEGATIVE_WAKE_WORD_ALLOWED_NAMES"
    by (auto simp: WAKE_WORD_ALLOWED_NAMES_def)
  then show ?thesis
  proof cases
    case pos
    then have "\<not> startsWith ''negative-'' (expected_key req w)"
      by (simp add: expected_key_def Let_def present_Cons join_Cons startsWith_def
          NEGATIVE_WAKE_WORD_ALLOWED_NAMES_def)
    with pos k show ?thesis
      by (simp add: NEGATIVE_WAKE_WORD_ALLOWED_NAMES_def WAKE_WORD_ALLOWED_NAMES_def)
  next
    case neg
    then have ne: "wake_word_of req \<noteq> []"
      by (auto simp: NEGATIVE_WAKE_WORD_ALLOWED_NAMES_def)
    from neg ne have "startsWith ''negative-'' (expected_key req w)"
      by (simp add: expected_key_def Let_def present_Cons join_Cons startsWith_def)
    with neg k show ?thesis
      by (auto simp: NEGATIVE_WAKE_WORD_ALLOWED_NAMES_def WAKE_WORD_ALLOWED_NAMES_def)
  qed
qed

theorem negative_prefix_witness:
  "upload_valid example_demographics (upload_request ''2048'' [(''wake_word'', ''texas'')])
   \<and> wake_word_of (upload_request ''2048'' [(''wake_word'', ''texas'')])
       \<in> set NEGATIVE_WAKE_WORD_ALLOWED_NAMES
   \<and> (\<exists>key. upload_key example_demographics (upload_request ''2048'' [(''wake_word'', ''texas'')])
               empty_world = Inr key
          \<and> startsWith ''negative-'' key)
   \<and> upload_valid example_demographics (upload_request ''2048'' [(''wake_word'', ''hey_nexus'')])
   \<and> wake_word_of (upload_request ''2048'' [(''wake_word'', ''hey_nexus'')])
       \<in> set WAKE_WORD_ALLOWED_NAMES
   \<and> (\<exists>key. upload_key example_demographics (upload_request ''2048'' [(''wake_word'', ''hey_nexus'')])
               empty_world = Inr key
          \<and> \<not> startsWith ''negative-'' key)"
proof -
  let ?neg = "upload_request ''2048'' [(''wake_word'', ''texas'')]"
  let ?pos = "upload_request ''2048'' [(''wake_word'', ''hey_nexus'')]"
  have h: "upload_valid example_demographics ?neg"
    by (simp add: valid_simps request_simps parse_simps table_simps)
  have n: "wake_word_of ?neg \<in> set NEGATIVE_WAKE_WORD_ALLOWED_NAMES"
    by (simp add: request_simps table_simps)
  have h': "upload_valid example_demographics ?pos"
    by (simp add: valid_simps request_simps parse_simps table_simps)
  have n': "wake_word_of ?pos \<in> set WAKE_WORD_ALLOWED_NAMES"
    by (simp add: request_simps table_simps)
  have c: "\<exists>key. upload_key example_demographics ?neg empty_world = Inr key
                \<and> startsWith ''negative-'' key"
    using n negative_prefix [OF h, of empty_world] by auto
  have c': "\<exists>key. upload_key example_demographics ?pos empty_world = Inr key
                \<and> \<not> startsWith ''negative-'' key"
    using n' negative_prefix [OF h', of empty_world] by auto
  show ?thesis
    using h n c h' n' c' by blast
qed

subsection \<open>The gender and the identifier in the key\<close>

lemma or_default_nonempty: "d \<noteq> [] \<Longrightarrow> or_default v d \<noteq> []"
  by (simp add: or_default_def split: option.splits)

lemma gender_of_nonempty: "gender_of req \<noteq> []"
  by (simp add: gender_of_def or_default_nonempty)

lemma identifier_of_nonempty: "identifier_of req w \<noteq> []"
  by (simp add: identifier_of_def uniqueId_def or_default_nonempty)

lemma upload_valid_wake_word_nonempty: "upload_valid D req \<Longrightarrow> wake_word_of req \<noteq> []"
  by (auto simp: upload_valid_def wake_word_allowed_iff wake_word_of_def
      WAKE_WORD_ALLOWED_NAMES_def NEGATIVE_WAKE_WORD_ALLOWED_NAMES_def)

text \<open>The parts of a valid upload's key end with the gender and the identifier.\<close>

lemma expected_key_parts:
  assumes "upload_valid D req"
  shows "\<exists>ps. ps \<noteq> [] \<and>
           expected_key req w
             = join ''-'' (ps @ [gender_of req, identifier_of req w])
               @ ''.'' @ subtype (str (contentType_of req))"
proof -
  let ?front =
    "[if wake_word_of req \<in> set NEGATIVE_WAKE_WORD_ALLOWED_NAMES then Some ''negative'' else None,
      Some (wake_word_of req),
      if truthy (searchParams_get req ''language'') \<and> truthy (searchParams_get req ''accent'')
      then Some (str (searchParams_get req ''language'') @ ''_'' @ str (searchParams_get req ''accent''))
      else None,
      if age_of req \<noteq> [] then Some (age_of req) else None]"
  have ne: "present ?front \<noteq> []"
    using upload_valid_wake_word_nonempty [OF assms] by (simp add: present_def)
  have "expected_key req w
        = join ''-'' (present (?front @ [Some (gender_of req), Some (identifier_of req w)]))
          @ ''.'' @ subtype (str (contentType_of req))"
    by (simp add: expected_key_def Let_def)
  also have "present (?front @ [Some (gender_of req), Some (identifier_of req w)])
             = present ?front @ [gender_of req, identifier_of req w]"
    by (rule present_last2 [OF gender_of_nonempty identifier_of_nonempty])
  finally show ?thesis using ne by blast
qed

lemma join_snoc2:
  "ps \<noteq> [] \<Longrightarrow> join sep (ps @ [g, i]) = join sep ps @ sep @ g @ sep @ i"
  by (simp add: join_append)

lemma createResponse_eq_iff:
  "createResponse c st = createResponse c' st'
   \<longleftrightarrow> JSON_stringify c = JSON_stringify c'
       \<and> (case st of None \<Rightarrow> 400 | Some n \<Rightarrow> n) = (case st' of None \<Rightarrow> 400 | Some n \<Rightarrow> n)"
  by (auto simp: createResponse_def)

lemma quoteJSON_eq: "quoteJSON a = quoteJSON b \<longleftrightarrow> concat (map escapeChar a) = concat (map escapeChar b)"
  by (simp add: quoteJSON_def)

lemma message_response_eq:
  "createResponse (message m) st = createResponse (message m') st'
   \<longleftrightarrow> concat (map escapeChar m) = concat (map escapeChar m')
       \<and> (case st of None \<Rightarrow> 400 | Some n \<Rightarrow> n) = (case st' of None \<Rightarrow> 400 | Some n \<Rightarrow> n)"
  by (simp add: createResponse_eq_iff JSON_stringify_message quoteJSON_eq)

lemma languageAccent_of_not_gender:
  "languageAccent_of D l a \<noteq> Inl (gender_rejection D g)"
  by (simp add: languageAccent_of_def gender_rejection_def message_response_eq escapeChar_def)

lemma upload_key_not_gender:
  assumes "GENDERS_in D (gender_of req)"
  shows "upload_key D req w \<noteq> Inl (gender_rejection D g)"
  using assms languageAccent_of_not_gender [of D "searchParams_get req ''language''" "searchParams_get req ''accent''" g]
  by (auto simp: upload_key_def Let_def gender_rejection_def message_response_eq escapeChar_def
      split: sum.splits)

text \<open>
  C9. When the gender parameter is absent or empty, the gender the handler checks and
  writes into the key is \<^verbatim>\<open>do_not_wish_to_say\<close>; with that value a key of the gender
  table, as the source's comment and the specification say it is, the gender check
  passes and no response of the handler is the gender check's rejection. The key of
  every valid upload has the gender, which is never empty, as its last part but one:
  the parts before it, a hyphen, the gender, a hyphen, the identifier, the extension.
\<close>

theorem gender_default:
  "(\<not> truthy (searchParams_get req ''gender'') \<longrightarrow>
      gender_of req = ''do_not_wish_to_say''
      \<and> (GENDERS_in D ''do_not_wish_to_say'' \<longrightarrow>
           GENDERS_in D (gender_of req) \<and> (\<forall>g. upload_key D req w \<noteq> Inl (gender_rejection D g))))
   \<and> (upload_valid D req \<longrightarrow>
        gender_of req \<noteq> []
        \<and> (\<exists>ps. ps \<noteq> [] \<and>
              upload_key D req w
                = Inr (join ''-'' ps @ ''-'' @ gender_of req @ ''-'' @ identifier_of req w
                       @ ''.'' @ subtype (str (contentType_of req)))))"
proof (intro conjI impI)
  assume a: "\<not> truthy (searchParams_get req ''gender'')"
  then show d: "gender_of req = ''do_not_wish_to_say''"
    by (auto simp: gender_of_def or_default_def truthy_def split: option.splits)
  assume "GENDERS_in D ''do_not_wish_to_say''"
  with d show g: "GENDERS_in D (gender_of req)" by simp
  show "\<forall>g. upload_key D req w \<noteq> Inl (gender_rejection D g)"
    using upload_key_not_gender [OF g] by blast
next
  assume v: "upload_valid D req"
  show "gender_of req \<noteq> []" by (rule gender_of_nonempty)
  from expected_key_parts [OF v, of w] obtain ps where
    ps: "ps \<noteq> []"
      "expected_key req w = join ''-'' (ps @ [gender_of req, identifier_of req w])
         @ ''.'' @ subtype (str (contentType_of req))"
    by blast
  have "upload_key D req w = Inr (expected_key req w)" by (rule upload_key_expected [OF v])
  with ps show "\<exists>ps. ps \<noteq> [] \<and>
      upload_key D req w
        = Inr (join ''-'' ps @ ''-'' @ gender_of req @ ''-'' @ identifier_of req w
               @ ''.'' @ subtype (str (contentType_of req)))"
    by (auto simp: join_snoc2)
qed

theorem gender_default_witness:
  "\<not> truthy (searchParams_get (upload_request ''2048'' [(''wake_word'', ''hey_nexus'')]) ''gender'')
   \<and> GENDERS_in example_demographics ''do_not_wish_to_say''
   \<and> upload_valid example_demographics (upload_request ''2048'' [(''wake_word'', ''hey_nexus'')])
   \<and> gender_of (upload_request ''2048'' [(''wake_word'', ''hey_nexus'')]) = ''do_not_wish_to_say''
   \<and> (\<forall>g. upload_key example_demographics (upload_request ''2048'' [(''wake_word'', ''hey_nexus'')])
             empty_world \<noteq> Inl (gender_rejection example_demographics g))
   \<and> upload_key example_demographics (upload_request ''2048'' [(''wake_word'', ''hey_nexus'')])
        empty_world = Inr ''hey_nexus-do_not_wish_to_say-8f2a1b3c4d5e6f70-AMS.webm''"
proof -
  let ?req = "upload_request ''2048'' [(''wake_word'', ''hey_nexus'')]"
  have a: "\<not> truthy (searchParams_get ?req ''gender'')"
    by (simp add: request_simps)
  have g: "GENDERS_in example_demographics ''do_not_wish_to_say''"
    by (simp add: table_simps)
  have v: "upload_valid example_demographics ?req"
    by (simp add: valid_simps request_simps parse_simps table_simps)
  have k: "upload_key example_demographics ?req empty_world
           = Inr ''hey_nexus-do_not_wish_to_say-8f2a1b3c4d5e6f70-AMS.webm''"
    unfolding upload_key_expected [OF v]
    by (simp add: expected_key_def present_def subtype_def request_simps table_simps)
  show ?thesis
    using a g v k gender_default [of ?req example_demographics empty_world] by simp
qed

lemma identifier_of_cf_ray:
  "headers_get req ''cf-ray'' = Some ray \<Longrightarrow> ray \<noteq> [] \<Longrightarrow> identifier_of req w = ray"
  by (simp add: identifier_of_def or_default_def)

lemma upload_key_cong:
  assumes "req_method req' = req_method req" "req_headers req' = req_headers req"
    "searchParams req' = searchParams req" "identifier_of req' w' = identifier_of req w"
  shows "upload_key D req' w' = upload_key D req w"
proof -
  have same:
    "contentType_of req' = contentType_of req"
    "contentLength_of req' = contentLength_of req"
    "age_of req' = age_of req"
    "gender_of req' = gender_of req"
    "\<And>n. searchParams_get req' n = searchParams_get req n"
    using assms(2,3)
    by (simp_all add: contentType_of_def contentLength_of_def headers_get_def
        searchParams_get_def age_of_def gender_of_def)
  show ?thesis
    unfolding upload_key_def same assms(1) assms(4) by (rule refl)
qed

text \<open>
  C10. When the request carries a non-empty \<^verbatim>\<open>cf-ray\<close> header, the identifier is that
  header value, and the key of a valid upload ends with a hyphen, that value, a dot and
  the extension. Two requests with the same method, headers and query parameters then
  get the same result of the checks and the same key, whatever the clock, the random
  fragment and the bodies are.
\<close>

theorem cf_ray_identifier:
  assumes "headers_get req ''cf-ray'' = Some ray" and "ray \<noteq> []"
  shows "identifier_of req w = ray
    \<and> (req_method req' = req_method req \<and> req_headers req' = req_headers req
         \<and> searchParams req' = searchParams req
       \<longrightarrow> upload_key D req' w' = upload_key D req w)
    \<and> (upload_valid D req \<longrightarrow>
         (\<exists>ps. ps \<noteq> [] \<and>
            upload_key D req w
              = Inr (join ''-'' ps @ ''-'' @ ray @ ''.'' @ subtype (str (contentType_of req)))))"
proof (intro conjI impI)
  show i: "identifier_of req w = ray" by (rule identifier_of_cf_ray [OF assms])
  {
    assume e: "req_method req' = req_method req \<and> req_headers req' = req_headers req
         \<and> searchParams req' = searchParams req"
    then have "headers_get req' ''cf-ray'' = Some ray"
      using assms(1) by (simp add: headers_get_def)
    then have "identifier_of req' w' = ray" by (rule identifier_of_cf_ray [OF _ assms(2)])
    with i e show "upload_key D req' w' = upload_key D req w"
      by (simp add: upload_key_cong)
  }
  {
    assume v: "upload_valid D req"
    from expected_key_parts [OF v, of w] obtain ps where
      ps: "ps \<noteq> []"
        "expected_key req w = join ''-'' (ps @ [gender_of req, identifier_of req w])
           @ ''.'' @ subtype (str (contentType_of req))"
      by blast
    have k: "upload_key D req w = Inr (expected_key req w)" by (rule upload_key_expected [OF v])
    have "join ''-'' (ps @ [gender_of req, identifier_of req w])
          = join ''-'' (ps @ [gender_of req]) @ ''-'' @ ray"
      using ps(1) i by (simp add: join_snoc2 join_append)
    with ps k have "upload_key D req w
        = Inr (join ''-'' (ps @ [gender_of req]) @ ''-'' @ ray
               @ ''.'' @ subtype (str (contentType_of req)))"
      by simp
    then show "\<exists>ps. ps \<noteq> [] \<and>
            upload_key D req w
              = Inr (join ''-'' ps @ ''-'' @ ray @ ''.'' @ subtype (str (contentType_of req)))"
      by (intro exI [of _ "ps @ [gender_of req]"]) simp
  }
qed

theorem cf_ray_identifier_witness:
  "headers_get (upload_request ''2048'' [(''wake_word'', ''hey_lexus'')]) ''cf-ray''
     = Some ''8f2a1b3c4d5e6f70-AMS''
   \<and> ''8f2a1b3c4d5e6f70-AMS'' \<noteq> []
   \<and> upload_valid example_demographics (upload_request ''2048'' [(''wake_word'', ''hey_lexus'')])
   \<and> identifier_of (upload_request ''2048'' [(''wake_word'', ''hey_lexus'')]) empty_world
       = ''8f2a1b3c4d5e6f70-AMS''
   \<and> upload_key example_demographics
        (upload_request ''2048'' [(''wake_word'', ''hey_lexus'')] \<lparr>req_body := ''OggS''\<rparr>)
        (empty_world \<lparr>clock := 1800000000000, random_fragment := ''zz81''\<rparr>)
      = upload_key example_demographics
          (upload_request ''2048'' [(''wake_word'', ''hey_lexus'')]) empty_world
   \<and> (\<exists>ps. ps \<noteq> [] \<and>
         upload_key example_demographics
           (upload_request ''2048'' [(''wake_word'', ''hey_lexus'')]) empty_world
         = Inr (join ''-'' ps @ ''-'' @ ''8f2a1b3c4d5e6f70-AMS'' @ ''.'' @ ''webm''))"
proof -
  let ?req = "upload_request ''2048'' [(''wake_word'', ''hey_lexus'')]"
  have h: "headers_get ?req ''cf-ray'' = Some ''8f2a1b3c4d5e6f70-AMS''"
    by (simp add: request_simps)
  have n: "''8f2a1b3c4d5e6f70-AMS'' \<noteq> []" by simp
  have v: "upload_valid example_demographics ?req"
    by (simp add: valid_simps request_simps parse_simps table_simps)
  have s: "subtype (str (contentType_of ?req)) = ''webm''"
    by (simp add: subtype_def request_simps)
  have e: "req_method (?req \<lparr>req_body := ''OggS''\<rparr>) = req_method ?req
           \<and> req_headers (?req \<lparr>req_body := ''OggS''\<rparr>) = req_headers ?req
           \<and> searchParams (?req \<lparr>req_body := ''OggS''\<rparr>) = searchParams ?req"
    by simp
  show ?thesis
    using h v e
      cf_ray_identifier [OF h n, of empty_world "?req \<lparr>req_body := ''OggS''\<rparr>"
        example_demographics "empty_world \<lparr>clock := 1800000000000, random_fragment := ''zz81''\<rparr>"]
    by (simp add: s)
qed

subsection \<open>Errors thrown by the bucket\<close>

text \<open>
  C2. When the bucket's \<^verbatim>\<open>list\<close> throws, the list handler returns status 500 with the
  body \<^verbatim>\<open>{message: "Error listing files", error}\<close>; when \<^verbatim>\<open>get\<close> throws, the download
  handler returns status 500 with the body \<^verbatim>\<open>{message: "Error downloading file", error}\<close>;
  \<^verbatim>\<open>error\<close> is the message of an \<^verbatim>\<open>Error\<close> and the string of any other thrown value. When
  \<^verbatim>\<open>put\<close> throws, the upload handler returns no response: the thrown value leaves the
  handler and the dispatcher.
\<close>

theorem backend_errors:
  "(bucket_list B (list_options_of req) (stored w) = Inl e \<longrightarrow>
      (\<exists>r w'. handleListFiles B req w = (Inr r, w') \<and> status r = 500
         \<and> body r = JSON_stringify (JObj [(''message'', JStr ''Error listing files''),
                                          (''error'', JStr (error_text e))])))
   \<and> (truthy (searchParams_get req ''key'')
       \<and> bucket_get B (str (searchParams_get req ''key'')) (stored w) = Inl e \<longrightarrow>
      (\<exists>r w'. handleDownloadFile B req w = (Inr r, w') \<and> status r = 500
         \<and> body r = JSON_stringify (JObj [(''message'', JStr ''Error downloading file''),
                                          (''error'', JStr (error_text e))])))
   \<and> (upload_key D req w = Inr key \<and> bucket_put B key (req_body req) (stored w) = Inl e \<longrightarrow>
      (\<exists>w'. handleUploadAudioFile D B req w = (Inl e, w')
         \<and> assistHandler D B WAKE_WORD_TRAINING_UPLOAD req w = (Inl e, w')))"
proof (intro conjI impI)
  assume "bucket_list B (list_options_of req) (stored w) = Inl e"
  then show "\<exists>r w'. handleListFiles B req w = (Inr r, w') \<and> status r = 500
         \<and> body r = JSON_stringify (JObj [(''message'', JStr ''Error listing files''),
                                          (''error'', JStr (error_text e))])"
    by (simp add: handleListFiles_def Let_def)
next
  assume "truthy (searchParams_get req ''key'')
       \<and> bucket_get B (str (searchParams_get req ''key'')) (stored w) = Inl e"
  then show "\<exists>r w'. handleDownloadFile B req w = (Inr r, w') \<and> status r = 500
         \<and> body r = JSON_stringify (JObj [(''message'', JStr ''Error downloading file''),
                                          (''error'', JStr (error_text e))])"
    by (simp add: handleDownloadFile_def Let_def)
next
  assume a: "upload_key D req w = Inr key \<and> bucket_put B key (req_body req) (stored w) = Inl e"
  then have "upload_valid D req" by (blast intro: upload_key_Inr_valid)
  then have m: "req_method req \<noteq> ''OPTIONS''" by (simp add: upload_valid_def)
  from a have "handleUploadAudioFile D B req w
      = (Inl e, w\<lparr>console := console w @ [key], calls := calls w @ [Put key (req_body req)]\<rparr>)"
    by (simp add: handleUploadAudioFile_def Let_def)
  with m show "\<exists>w'. handleUploadAudioFile D B req w = (Inl e, w')
         \<and> assistHandler D B WAKE_WORD_TRAINING_UPLOAD req w = (Inl e, w')"
    by (simp add: assistHandler_def)
qed

theorem backend_errors_witness:
  "bucket_list failing_bucket (list_options_of (get_request [])) (stored empty_world)
     = Inl (ErrorObject ''Network connection lost.'')
   \<and> (\<exists>r w'. handleListFiles failing_bucket (get_request []) empty_world = (Inr r, w')
         \<and> status r = 500
         \<and> body r = JSON_stringify (JObj [(''message'', JStr ''Error listing files''),
                                          (''error'', JStr ''Network connection lost.'')]))
   \<and> truthy (searchParams_get (get_request [(''key'', ''a.webm'')]) ''key'')
   \<and> bucket_get failing_bucket (str (searchParams_get (get_request [(''key'', ''a.webm'')]) ''key''))
        (stored empty_world) = Inl (OtherValue ''timeout'')
   \<and> (\<exists>r w'. handleDownloadFile failing_bucket (get_request [(''key'', ''a.webm'')]) empty_world
                = (Inr r, w')
         \<and> status r = 500
         \<and> body r = JSON_stringify (JObj [(''message'', JStr ''Error downloading file''),
                                          (''error'', JStr ''timeout'')]))
   \<and> upload_key example_demographics (upload_request ''2048'' [(''wake_word'', ''hey_nexus'')])
        empty_world = Inr ''hey_nexus-do_not_wish_to_say-8f2a1b3c4d5e6f70-AMS.webm''
   \<and> (\<exists>w'. assistHandler example_demographics failing_bucket WAKE_WORD_TRAINING_UPLOAD
              (upload_request ''2048'' [(''wake_word'', ''hey_nexus'')]) empty_world
            = (Inl (ErrorObject ''Network connection lost.''), w'))"
proof -
  let ?up = "upload_request ''2048'' [(''wake_word'', ''hey_nexus'')]"
  let ?key = "''hey_nexus-do_not_wish_to_say-8f2a1b3c4d5e6f70-AMS.webm''"
  have l: "bucket_list failing_bucket (list_options_of (get_request [])) (stored empty_world)
            = Inl (ErrorObject ''Network connection lost.'')"
    by (simp add: failing_bucket_def)
  have t: "truthy (searchParams_get (get_request [(''key'', ''a.webm'')]) ''key'')"
    by (simp add: request_simps)
  have g: "bucket_get failing_bucket (str (searchParams_get (get_request [(''key'', ''a.webm'')]) ''key''))
             (stored empty_world) = Inl (OtherValue ''timeout'')"
    by (simp add: failing_bucket_def)
  have v: "upload_valid example_demographics ?up"
    by (simp add: valid_simps request_simps parse_simps table_simps)
  have k: "upload_key example_demographics ?up empty_world = Inr ?key"
    unfolding upload_key_expected [OF v]
    by (simp add: expected_key_def present_def subtype_def request_simps table_simps)
  have p: "bucket_put failing_bucket ?key (req_body ?up) (stored empty_world)
            = Inl (ErrorObject ''Network connection lost.'')"
    by (simp add: failing_bucket_def)
  have c1: "\<exists>r w'. handleListFiles failing_bucket (get_request []) empty_world = (Inr r, w')
         \<and> status r = 500
         \<and> body r = JSON_stringify (JObj [(''message'', JStr ''Error listing files''),
                                          (''error'', JStr ''Network connection lost.'')])"
    using l backend_errors [of failing_bucket "get_request []" empty_world
        "ErrorObject ''Network connection lost.''" example_demographics ?key]
    by (simp add: error_text_def)
  have c2: "\<exists>r w'. handleDownloadFile failing_bucket (get_request [(''key'', ''a.webm'')]) empty_world
                = (Inr r, w')
         \<and> status r = 500
         \<and> body r = JSON_stringify (JObj [(''message'', JStr ''Error downloading file''),
                                          (''error'', JStr ''timeout'')])"
    using t g backend_errors [of failing_bucket "get_request [(''key'', ''a.webm'')]" empty_world
        "OtherValue ''timeout''" example_demographics ?key]
    by (simp add: error_text_def)
  have c3: "\<exists>w'. assistHandler example_demographics failing_bucket WAKE_WORD_TRAINING_UPLOAD
              ?up empty_world = (Inl (ErrorObject ''Network connection lost.''), w')"
    using k p backend_errors [of failing_bucket ?up empty_world
        "ErrorObject ''Network connection lost.''" example_demographics ?key]
    by blast
  show ?thesis
    using l t g k c1 c2 c3 by blast
qed

subsection \<open>The content length check\<close>

text \<open>
  What the handler's length check rejects: an absent or empty header, a value without
  leading digits, zero, and a number above 256000. For a PUT request with an allowed
  content type these are exactly the requests answered with status 413.
\<close>

lemma contentLength_rejected_iff:
  "contentLength_rejected (contentLength_of req) \<longleftrightarrow>
     (case headers_get req ''content-length'' of
        None \<Rightarrow> True
      | Some v \<Rightarrow> v = [] \<or> (case parseInt v of NaN \<Rightarrow> True
                              | Num n \<Rightarrow> n = 0 \<or> n > 256000))"
  by (simp add: contentLength_rejected_def contentLength_of_def WAKE_WORD_MAX_CONTENT_LENGTH_def
      split: option.splits jsnum.splits)

lemma content_length_check:
  assumes "req_method req = ''PUT''" and "contentType_allowed req"
  shows "contentLength_rejected (contentLength_of req) \<longleftrightarrow>
         (\<exists>r. handleUploadAudioFile D B req w = (Inr r, w) \<and> status r = 413)"
proof
  assume r: "contentLength_rejected (contentLength_of req)"
  then have "\<not> upload_valid D req" by (simp add: upload_valid_def)
  from upload_key_invalid [OF this, of w] r assms show
    "\<exists>r. handleUploadAudioFile D B req w = (Inr r, w) \<and> status r = 413"
    by (auto simp: handleUploadAudioFile_def rejection_status_def)
next
  assume "\<exists>r. handleUploadAudioFile D B req w = (Inr r, w) \<and> status r = 413"
  then obtain r where r: "handleUploadAudioFile D B req w = (Inr r, w)" "status r = 413" by blast
  show "contentLength_rejected (contentLength_of req)"
  proof (rule ccontr)
    assume n: "\<not> contentLength_rejected (contentLength_of req)"
    show False
    proof (cases "upload_valid D req")
      case True
      from r upload_key_expected [OF True, of w] show False
        by (auto simp: handleUploadAudioFile_def Let_def split: sum.splits)
    next
      case False
      from upload_key_invalid [OF False, of w] r n assms show False
        by (auto simp: handleUploadAudioFile_def rejection_status_def)
    qed
  qed
qed

text \<open>
  C1. The claim says that a Content-Length that does not parse as a positive integer is
  answered with status 413. The header value \<^verbatim>\<open>-5\<close> parses to the number \<open>-5\<close>, which
  is neither falsy nor above the ceiling: the length check passes, and with a valid wake
  word the body is stored and the response has status 201.
\<close>

theorem negative_content_length_accepted:
  "contentLength_of (upload_request ''-5'' [(''wake_word'', ''hey_nexus'')]) = CLNumber (Num (- 5))
   \<and> (\<exists>r w'. handleUploadAudioFile example_demographics memory_bucket
                (upload_request ''-5'' [(''wake_word'', ''hey_nexus'')]) empty_world = (Inr r, w')
          \<and> status r = 201
          \<and> calls w' = [Put ''hey_nexus-do_not_wish_to_say-8f2a1b3c4d5e6f70-AMS.webm'' ''RIFF''])"
proof -
  let ?req = "upload_request ''-5'' [(''wake_word'', ''hey_nexus'')]"
  have c: "contentLength_of ?req = CLNumber (Num (- 5))"
    by (simp add: request_simps parse_simps)
  have v: "upload_valid example_demographics ?req"
    by (simp add: valid_simps request_simps parse_simps table_simps)
  have k: "upload_key example_demographics ?req empty_world
           = Inr ''hey_nexus-do_not_wish_to_say-8f2a1b3c4d5e6f70-AMS.webm''"
    unfolding upload_key_expected [OF v]
    by (simp add: expected_key_def present_def subtype_def request_simps table_simps)
  have "\<exists>r w'. handleUploadAudioFile example_demographics memory_bucket ?req empty_world = (Inr r, w')
          \<and> status r = 201
          \<and> calls w' = [Put ''hey_nexus-do_not_wish_to_say-8f2a1b3c4d5e6f70-AMS.webm'' ''RIFF'']"
    unfolding handleUploadAudioFile_def k
    by (simp add: Let_def memory_bucket_def empty_world_def upload_request_def)
  with c show ?thesis by blast
qed

subsection \<open>Uploads that the specification calls invalid\<close>

text \<open>
  A valid upload of the specification passes the handler's checks. The converse fails
  only where the handler's length test lets a negative Content-Length through: every
  other request that the specification calls invalid is answered with the error response
  of its first failing check, and nothing is stored.
\<close>

lemma spec_length_ok_passes:
  "spec_length_ok req \<Longrightarrow> \<not> contentLength_rejected (contentLength_of req)"
  by (auto simp: spec_length_ok_def contentLength_rejected_iff parseInt_def Let_def
      split: option.splits jsnum.splits if_splits)

lemma spec_upload_valid_imp_upload_valid:
  "spec_upload_valid D req \<Longrightarrow> upload_valid D req"
  by (simp add: spec_upload_valid_def upload_valid_def spec_length_ok_passes)

lemma length_test_misses_negative:
  assumes "upload_valid D req" and "\<not> spec_upload_valid D req"
  shows "\<exists>v n. headers_get req ''content-length'' = Some v \<and> parseInt v = Num n \<and> n < 0"
  using assms
  by (auto simp: upload_valid_def spec_upload_valid_def spec_length_ok_def
      contentLength_rejected_iff split: option.splits jsnum.splits)

lemma spec_invalid_rejected_unless_negative:
  assumes "\<not> spec_upload_valid D req"
    and "\<not> (\<exists>v n. headers_get req ''content-length'' = Some v \<and> parseInt v = Num n \<and> n < 0)"
  shows "\<exists>r. handleUploadAudioFile D B req w = (Inr r, w)
             \<and> status r = rejection_status req \<and> status r \<in> {400, 405, 413, 415}"
proof -
  from assms have "\<not> upload_valid D req"
    using length_test_misses_negative by blast
  then show ?thesis by (rule upload_rejected_no_put)
qed

text \<open>
  C5. The claim says that an upload request with a bad content length gets an error
  response and that no call of \<^verbatim>\<open>put\<close> occurs. The request with Content-Length \<^verbatim>\<open>-5\<close> fails
  the specification's length check (present, a positive integer, at most 256000), and
  the handler answers it with status 201 after one call of \<^verbatim>\<open>put\<close>: the object is in the
  bucket, which was empty before.
\<close>

theorem invalid_length_upload_stored:
  "\<not> spec_length_ok (upload_request ''-5'' [(''wake_word'', ''texas''), (''age'', ''child'')])
   \<and> \<not> spec_upload_valid example_demographics
         (upload_request ''-5'' [(''wake_word'', ''texas''), (''age'', ''child'')])
   \<and> (\<exists>r w'. handleUploadAudioFile example_demographics memory_bucket
                (upload_request ''-5'' [(''wake_word'', ''texas''), (''age'', ''child'')]) empty_world
              = (Inr r, w')
          \<and> status r = 201
          \<and> calls w'
              = [Put ''negative-texas-child-do_not_wish_to_say-8f2a1b3c4d5e6f70-AMS.webm'' ''RIFF'']
          \<and> stored w'
              = [(''negative-texas-child-do_not_wish_to_say-8f2a1b3c4d5e6f70-AMS.webm'', ''RIFF'')]
          \<and> stored empty_world = [])"
proof -
  let ?req = "upload_request ''-5'' [(''wake_word'', ''texas''), (''age'', ''child'')]"
  let ?key = "''negative-texas-child-do_not_wish_to_say-8f2a1b3c4d5e6f70-AMS.webm''"
  have l: "\<not> spec_length_ok ?req"
    by (simp add: spec_length_ok_def request_simps parse_simps)
  then have s: "\<not> spec_upload_valid example_demographics ?req"
    by (simp add: spec_upload_valid_def)
  have v: "upload_valid example_demographics ?req"
    by (simp add: valid_simps request_simps parse_simps table_simps)
  have k: "upload_key example_demographics ?req empty_world = Inr ?key"
    unfolding upload_key_expected [OF v]
    by (simp add: expected_key_def present_def subtype_def request_simps table_simps)
  have "\<exists>r w'. handleUploadAudioFile example_demographics memory_bucket ?req empty_world = (Inr r, w')
          \<and> status r = 201
          \<and> calls w' = [Put ?key ''RIFF'']
          \<and> stored w' = [(?key, ''RIFF'')]
          \<and> stored empty_world = []"
    unfolding handleUploadAudioFile_def k
    by (simp add: Let_def memory_bucket_def empty_world_def upload_request_def)
  with l s show ?thesis by blast
qed

subsection \<open>Downloads\<close>

text \<open>
  A stored object is downloaded with status 200, its body and the headers set in order;
  a key with a line feed makes \<^verbatim>\<open>headers.set\<close> throw for the Content-Disposition value,
  which the handler catches and answers with status 500.
\<close>

lemma natToString_4: "natToString (Suc (Suc (Suc (Suc 0)))) = ''4''"
  by code_simp

lemma download_examples:
  "\<exists>r w'. handleDownloadFile memory_bucket (get_request [(''key'', ''a.webm'')])
            (empty_world \<lparr>stored := [(''a.webm'', ''RIFF'')]\<rparr>) = (Inr r, w')
        \<and> status r = 200 \<and> body r = ''RIFF''
        \<and> headers r =
            [(''Access-Control-Allow-Origin'', ''*''),
             (''Access-Control-Allow-Methods'', ''GET''),
             (''Access-Control-Allow-Headers'', ''Content-Type''),
             (''Content-Disposition'', ''attachment; filename='' @ [CHR 0x22] @ ''a.webm'' @ [CHR 0x22]),
             (''Content-Length'', ''4'')]"
  "\<exists>r w'. handleDownloadFile memory_bucket (get_request [(''key'', ''a'' @ [CHR 0x0A] @ ''b'')])
            (empty_world \<lparr>stored := [(''a'' @ [CHR 0x0A] @ ''b'', ''RIFF'')]\<rparr>) = (Inr r, w')
        \<and> status r = 500
        \<and> body r = JSON_stringify (JObj [(''message'', JStr ''Error downloading file''),
                                         (''error'', JStr ''Invalid header value.'')])"
  by (simp_all add: handleDownloadFile_def download_headers_def headers_set_def
      normalize_value_def value_refused_def isHttpWhitespace_def metadata_contentType_def
      Let_def request_simps memory_bucket_def empty_world_def natToString_4 error_text_def)

subsection \<open>The headers of the responses\<close>

text \<open>
  C6. The claim says that the JSON responses of the list and download routes carry the
  allow-methods value GET. Their error responses are built by \<^verbatim>\<open>createResponse\<close>, whose
  allow-methods value is PUT: the download route's 400 (no key) and 404 (no such object)
  and the list route's 500 carry PUT, while the success responses of the same two
  handlers set GET.
\<close>

theorem get_route_errors_allow_put:
  "(\<exists>r. handleDownloadFile memory_bucket (get_request []) empty_world = (Inr r, empty_world)
        \<and> status r = 400
        \<and> map_of (headers r) ''Access-Control-Allow-Methods'' = Some ''PUT'')
   \<and> (\<exists>r w'. handleDownloadFile memory_bucket (get_request [(''key'', ''a.webm'')]) empty_world
                = (Inr r, w')
        \<and> status r = 404
        \<and> map_of (headers r) ''Access-Control-Allow-Methods'' = Some ''PUT'')
   \<and> (\<exists>r w'. handleListFiles failing_bucket (get_request []) empty_world = (Inr r, w')
        \<and> status r = 500
        \<and> map_of (headers r) ''Access-Control-Allow-Methods'' = Some ''PUT'')"
  by (simp add: handleDownloadFile_def handleListFiles_def Let_def request_simps
      memory_bucket_def failing_bucket_def empty_world_def)

subsection \<open>The limit of a listing\<close>

text \<open>
  When the limit parameter, or the default \<^verbatim>\<open>1000\<close> for an absent or empty one, starts
  with an integer, the limit handed to the bucket is that integer capped at 1000, and a
  listing that the bucket returns is answered with status 200 and allow-methods GET.
\<close>

lemma list_limit_capped:
  "parseInt (or_default (searchParams_get req ''limit'') ''1000'') = Num n \<Longrightarrow>
   opt_limit (list_options_of req) = Num (min n 1000)"
  by (simp add: list_options_of_def Let_def Math_min_def)

lemma list_success:
  "bucket_list B (list_options_of req) (stored w) = Inr l \<Longrightarrow>
   \<exists>r. handleListFiles B req w = (Inr r, w\<lparr>calls := calls w @ [List (list_options_of req)]\<rparr>)
       \<and> status r = 200
       \<and> map_of (headers r) ''Access-Control-Allow-Methods'' = Some ''GET''"
  by (simp add: handleListFiles_def Let_def)

lemma list_limit_examples:
  "opt_limit (list_options_of (get_request [(''limit'', ''5000'')])) = Num 1000"
  "opt_limit (list_options_of (get_request [(''limit'', ''25'')])) = Num 25"
  "opt_limit (list_options_of (get_request [])) = Num 1000"
  by (simp_all add: list_options_of_def Let_def Math_min_def request_simps parse_simps)

text \<open>
  C7. The claim says that the limit handed to the bucket is at most 1000 for every list
  request. For \<^verbatim>\<open>limit=abc\<close> the parsed limit is \<^verbatim>\<open>NaN\<close>, \<^verbatim>\<open>Math.min(NaN, 1000)\<close> is
  \<^verbatim>\<open>NaN\<close>, and the bucket's \<^verbatim>\<open>list\<close> is called with the limit \<^verbatim>\<open>NaN\<close>, which is not a
  number at most 1000.
\<close>

theorem list_limit_not_a_number:
  "parseInt ''abc'' = NaN
   \<and> list_options_of (get_request [(''limit'', ''abc'')])
       = \<lparr> opt_limit = NaN, opt_prefix = [], opt_cursor = None \<rparr>
   \<and> (\<exists>r w'. handleListFiles memory_bucket (get_request [(''limit'', ''abc'')]) empty_world
                = (Inr r, w')
          \<and> status r = 200
          \<and> calls w' = [List \<lparr> opt_limit = NaN, opt_prefix = [], opt_cursor = None \<rparr>])"
proof -
  have p: "parseInt ''abc'' = NaN" by (simp add: parse_simps)
  have o: "list_options_of (get_request [(''limit'', ''abc'')])
           = \<lparr> opt_limit = NaN, opt_prefix = [], opt_cursor = None \<rparr>"
    by (simp add: list_options_of_def Let_def request_simps p Math_min_def or_null_def)
  have "\<exists>r w'. handleListFiles memory_bucket (get_request [(''limit'', ''abc'')]) empty_world
                = (Inr r, w')
          \<and> status r = 200
          \<and> calls w' = [List \<lparr> opt_limit = NaN, opt_prefix = [], opt_cursor = None \<rparr>]"
    unfolding handleListFiles_def o
    by (simp add: Let_def memory_bucket_def empty_world_def)
  with p o show ?thesis by blast
qed

end
